theory Spec2Isabelle
  imports Main "HOL-Library.Word"
begin

unbundle bit_operations_syntax

section \<open>Data model of the Simulator class\<close>

text \<open>
  The embedding follows \<^verbatim>\<open>src/src/simulator.cpp\<close>, \<^verbatim>\<open>src/src/simulator.hpp\<close>,
  \<^verbatim>\<open>src/src/gui.cpp\<close> and \<^verbatim>\<open>src/shaders/host_device.h\<close>.

  C++ \<^verbatim>\<open>int\<close> fields are modelled as \<open>int\<close>; the only arithmetic on them is the
  guarded increment of \<^verbatim>\<open>m_rtxState.frame\<close>, which lemma \<open>updateFrame_int32\<close> shows
  never to leave the 32-bit range.  A \<^verbatim>\<open>float\<close> is its 32-bit pattern, a \<^verbatim>\<open>uint32_t\<close> a
  32-bit word.  Calls into collaborators (Vulkan device, renderers, scene, sky dome, GUI
  helper) are recorded, in program order, in the field \<open>trace\<close>; every invocation of
  \<^verbatim>\<open>resetFrame\<close> is recorded there as well.  Logging (\<^verbatim>\<open>LOGI\<close>) and timers are left out.
\<close>

type_synonym float = "32 word"
type_synonym uint32_t = "32 word"
type_synonym int32_t = "32 word"

text \<open>\<^verbatim>\<open>nvmath::mat4f\<close>: sixteen floats, kept as their bit patterns in memory order.\<close>

type_synonym mat4f = "float list"

datatype RndMethod = eRtxPipeline | eRayQuery | eNone

record VkExtent2D =
  width :: uint32_t
  height :: uint32_t

record VkOffset2D =
  x :: int32_t
  y :: int32_t

record VkRect2D =
  offset :: VkOffset2D
  extent :: VkExtent2D

text \<open>\<^verbatim>\<open>struct RtxState\<close> of \<^verbatim>\<open>host_device.h\<close>; \<^verbatim>\<open>size\<close> is named \<open>rtx_size\<close> and holds
  the two components as the bits written to them, \<^verbatim>\<open>_pad0\<close> is named \<open>pad0\<close>.\<close>

record RtxState =
  frame :: int
  maxDepth :: int
  maxSamples :: int
  fireflyClampThreshold :: float
  hdrMultiplier :: float
  debugging_mode :: int
  pbrMode :: int
  pad0 :: int
  rtx_size :: "uint32_t \<times> uint32_t"
  minHeatmap :: int
  maxHeatmap :: int
  accumulate :: int

text \<open>Calls that leave the class, as they appear in a trace.\<close>

datatype event =
    ResetFrame
  | DeviceWaitIdle
  | RenderDestroy RndMethod
  | RenderCreate RndMethod
  | RenderSetPushContants RndMethod
  | RenderRun RndMethod VkExtent2D
  | RtxUseAnyHit
  | SceneLoad string bool
  | SceneUpdateCamera
  | AccelStructCreate
  | PickerSetTlas
  | SkydomeLoadEnvironment string
  | UpdateHdrDescriptors
  | CmdUpdateBuffer
  | ShowBusyWindow
  | TimeRecurring string
  | GenMipmap

text \<open>
  The members of \<^verbatim>\<open>Simulator\<close> that the modelled functions read or write, the two
  function-local statics of \<^verbatim>\<open>updateFrame\<close> (\<open>refCamMatrix\<close>, \<open>fov\<close>), the
  \<^verbatim>\<open>autoExposure\<close> field of \<^verbatim>\<open>m_offscreen.m_tonemapper\<close>, the integral held by
  \<^verbatim>\<open>m_skydome\<close>, and the trace.
\<close>

record Simulator =
  m_rtxState :: RtxState
  m_maxFrames :: int
  m_descaling :: bool
  m_descalingLevel :: int
  m_busy :: bool
  m_busyReasonText :: string
  m_rndMethod :: RndMethod
  m_supportRayQuery :: bool
  m_renderRegion :: VkRect2D
  autoExposure :: int
  skydome_integral :: float
  refCamMatrix :: mat4f
  fov :: float
  trace :: "event list"

text \<open>What \<^verbatim>\<open>CameraManip.getMatrix()\<close> and \<^verbatim>\<open>CameraManip.getFov()\<close> return at a call.\<close>

record CameraManip =
  getMatrix :: mat4f
  getFov :: float

text \<open>
  Undefined behaviour of the C++ is a fault of the model: indexing
  \<^verbatim>\<open>std::array<Renderer*, eNone> m_pRender\<close> with \<^verbatim>\<open>eNone\<close>, and dividing by zero.
\<close>

datatype fault = OutOfBounds | DivideByZero

section \<open>Floating point comparison on bit patterns\<close>

definition float_isnan :: "float \<Rightarrow> bool" where
  "float_isnan a = (a AND 0x7F800000 = 0x7F800000 \<and> a AND 0x007FFFFF \<noteq> 0)"

definition float_iszero :: "float \<Rightarrow> bool" where
  "float_iszero a = (a AND 0x7FFFFFFF = 0)"

text \<open>The C++ operator \<^verbatim>\<open>!=\<close> on two floats (IEEE 754: a NaN differs from everything,
  the two zeros are equal).\<close>

definition float_ne :: "float \<Rightarrow> float \<Rightarrow> bool" where
  "float_ne a b =
     (float_isnan a \<or> float_isnan b \<or> (\<not> (float_iszero a \<and> float_iszero b) \<and> a \<noteq> b))"

text \<open>\<^verbatim>\<open>memcmp(&a, &b, sizeof(nvmath::mat4f)) != 0\<close>: some byte differs.\<close>

definition memcmp_ne :: "mat4f \<Rightarrow> mat4f \<Rightarrow> bool" where
  "memcmp_ne a b = (a \<noteq> b)"

section \<open>Frame counter\<close>

definition call :: "event \<Rightarrow> Simulator \<Rightarrow> Simulator" where
  "call e s = s\<lparr>trace := trace s @ [e]\<rparr>"

text \<open>\<^verbatim>\<open>Simulator::resetFrame\<close>: \<^verbatim>\<open>m_rtxState.frame = -1\<close>.\<close>

definition resetFrame :: "Simulator \<Rightarrow> Simulator" where
  "resetFrame s = (call ResetFrame s)\<lparr>m_rtxState := (m_rtxState s)\<lparr>frame := - 1\<rparr>\<rparr>"

text \<open>The condition of \<^verbatim>\<open>updateFrame\<close> under which it resets.\<close>

definition camera_changed :: "CameraManip \<Rightarrow> Simulator \<Rightarrow> bool" where
  "camera_changed cam s =
     (memcmp_ne (refCamMatrix s) (getMatrix cam) \<or> float_ne (getFov cam) (fov s))"

text \<open>\<^verbatim>\<open>Simulator::updateFrame\<close>.\<close>

definition updateFrame :: "CameraManip \<Rightarrow> Simulator \<Rightarrow> Simulator" where
  "updateFrame cam s =
     (let s1 = (if camera_changed cam s
                then (resetFrame s)\<lparr>refCamMatrix := getMatrix cam, fov := getFov cam\<rparr>
                else s)
      in if frame (m_rtxState s1) < m_maxFrames s1
         then s1\<lparr>m_rtxState := (m_rtxState s1)\<lparr>frame := frame (m_rtxState s1) + 1\<rparr>\<rparr>
         else s1)"

text \<open>One call of \<^verbatim>\<open>updateFrame\<close> per element of the list, in order.\<close>

fun updateFrames :: "CameraManip list \<Rightarrow> Simulator \<Rightarrow> Simulator" where
  "updateFrames [] s = s"
| "updateFrames (cam # cams) s = updateFrames cams (updateFrame cam s)"

text \<open>No call of the run takes the resetting branch.\<close>

fun no_reset :: "CameraManip list \<Rightarrow> Simulator \<Rightarrow> bool" where
  "no_reset [] s = True"
| "no_reset (cam # cams) s = (\<not> camera_changed cam s \<and> no_reset cams (updateFrame cam s))"

definition int32 :: "int \<Rightarrow> bool" where
  "int32 i = (- (2 ^ 31) \<le> i \<and> i < 2 ^ 31)"

section \<open>Collaborators\<close>

text \<open>
  Behaviour of code outside the class that the modelled functions depend on: whether
  \<^verbatim>\<open>m_scene.load\<close> succeeds on a file (the callers never look at it), the integral
  \<^verbatim>\<open>m_skydome.getIntegral()\<close> holds once \<^verbatim>\<open>loadEnvironment\<close> has read a file, and the
  multiplication of two floats.
\<close>

record collaborators =
  scene_load_ok :: "string \<Rightarrow> bool"
  hdr_integral :: "string \<Rightarrow> float"
  float_mul :: "float \<Rightarrow> float \<Rightarrow> float"

text \<open>The literal \<^verbatim>\<open>4.f\<close>.\<close>

definition float_4 :: float where
  "float_4 = 0x40800000"

text \<open>
  \<^verbatim>\<open>std::filesystem::path(p).filename()\<close> and \<^verbatim>\<open>.extension()\<close> of the C++17 standard
  library, for the generic path format with separator \<^verbatim>\<open>/\<close>: the extension starts at the
  rightmost period of the file name, and is empty for the names \<^verbatim>\<open>.\<close> and \<^verbatim>\<open>..\<close>, for a
  name without a period and for a name whose only period is its first character.
\<close>

definition path_filename :: "string \<Rightarrow> string" where
  "path_filename p = rev (takeWhile (\<lambda>c. c \<noteq> CHR ''/'') (rev p))"

definition path_extension :: "string \<Rightarrow> string" where
  "path_extension p =
     (let f = path_filename p;
          e = rev (takeWhile (\<lambda>c. c \<noteq> CHR ''.'') (rev f))
      in if f = ''.'' \<or> f = ''..'' \<or> CHR ''.'' \<notin> set f \<or> length e + 1 = length f
         then [] else CHR ''.'' # e)"

section \<open>Loading assets\<close>

text \<open>\<^verbatim>\<open>Simulator::loadScene\<close>.\<close>

definition loadScene :: "collaborators \<Rightarrow> string \<Rightarrow> Simulator \<Rightarrow> Simulator" where
  "loadScene env filename s =
     resetFrame
       (call PickerSetTlas
         (call AccelStructCreate
           (call (SceneLoad filename (scene_load_ok env filename)) s)))"

text \<open>\<^verbatim>\<open>Simulator::loadEnvironmentHdr\<close>.\<close>

definition loadEnvironmentHdr :: "collaborators \<Rightarrow> string \<Rightarrow> Simulator \<Rightarrow> Simulator" where
  "loadEnvironmentHdr env hdrFilename s =
     (let s1 = (call (SkydomeLoadEnvironment hdrFilename) s)
                 \<lparr>skydome_integral := hdr_integral env hdrFilename\<rparr>
      in s1\<lparr>m_rtxState := (m_rtxState s1)
              \<lparr>fireflyClampThreshold := float_mul env (skydome_integral s1) float_4\<rparr>\<rparr>)"

text \<open>\<^verbatim>\<open>Simulator::updateHdrDescriptors\<close>: descriptor writes only.\<close>

definition updateHdrDescriptors :: "Simulator \<Rightarrow> Simulator" where
  "updateHdrDescriptors s = call UpdateHdrDescriptors s"

text \<open>\<^verbatim>\<open>m_pRender[m_rndMethod]->create(...)\<close>; the array has no element \<^verbatim>\<open>eNone\<close>.\<close>

definition pRender_create :: "Simulator \<Rightarrow> fault + Simulator" where
  "pRender_create s =
     (if m_rndMethod s = eNone then Inl OutOfBounds
      else Inr (call (RenderCreate (m_rndMethod s)) s))"

text \<open>
  \<^verbatim>\<open>Simulator::loadAssets\<close> in two parts.  \<open>loadAssets_caller\<close> is what runs on the
  calling thread before the \<^verbatim>\<open>std::thread\<close> is started; \<open>loadAssets_thread\<close> is the
  body of the lambda.  \<open>loadAssets\<close> is one load session: the caller's part followed by
  the thread's body run to its end, with no step of the render thread in between.
\<close>

definition loadAssets_caller :: "Simulator \<Rightarrow> Simulator" where
  "loadAssets_caller s = call DeviceWaitIdle (s\<lparr>m_busy := True\<rparr>)"

definition loadAssets_thread :: "collaborators \<Rightarrow> string \<Rightarrow> Simulator \<Rightarrow> fault + Simulator" where
  "loadAssets_thread env sfile s =
     (let extension = path_extension sfile;
          r = (if extension = ''.gltf'' \<or> extension = ''.glb''
               then pRender_create
                      (call (RenderDestroy eRayQuery)
                        (call (RenderDestroy eRtxPipeline)
                          (loadScene env sfile (s\<lparr>m_busyReasonText := ''Loading scene ''\<rparr>))))
               else Inr s)
      in case r of
           Inl f \<Rightarrow> Inl f
         | Inr s1 \<Rightarrow>
             (let s2 = (if extension = ''.hdr''
                        then updateHdrDescriptors
                               (loadEnvironmentHdr env sfile
                                 (s1\<lparr>m_busyReasonText := ''Loading HDR ''\<rparr>))
                        else s1)
              in Inr ((resetFrame s2)\<lparr>m_busy := False\<rparr>)))"

definition loadAssets :: "collaborators \<Rightarrow> string \<Rightarrow> Simulator \<Rightarrow> fault + Simulator" where
  "loadAssets env filename s = loadAssets_thread env filename (loadAssets_caller s)"

text \<open>\<^verbatim>\<open>Simulator::onFileDrop\<close>.\<close>

definition onFileDrop :: "collaborators \<Rightarrow> string \<Rightarrow> Simulator \<Rightarrow> fault + Simulator" where
  "onFileDrop env filename s = (if m_busy s then Inr s else loadAssets env filename s)"

text \<open>
  The two \<^verbatim>\<open>File\<close> entries of \<^verbatim>\<open>SimGUI::menuBar\<close>, once clicked:
  \<^verbatim>\<open>sim_->loadAssets(openFilename(filter).c_str())\<close>, with \<open>filename\<close> what the dialog
  returned.
\<close>

definition menuBar_open :: "collaborators \<Rightarrow> string \<Rightarrow> Simulator \<Rightarrow> fault + Simulator" where
  "menuBar_open env filename s = loadAssets env filename s"

section \<open>Per-frame work\<close>

text \<open>\<^verbatim>\<open>Simulator::updateUniformBuffer\<close>.\<close>

definition updateUniformBuffer :: "Simulator \<Rightarrow> Simulator" where
  "updateUniformBuffer s =
     (if m_busy s then s else call CmdUpdateBuffer (call SceneUpdateCamera s))"

text \<open>
  \<^verbatim>\<open>Simulator::renderScene\<close>.  The division \<^verbatim>\<open>render_size.width / m_descalingLevel\<close>
  is unsigned: the \<^verbatim>\<open>int\<close> is converted to \<^verbatim>\<open>uint32_t\<close> first.
\<close>

definition renderScene :: "Simulator \<Rightarrow> fault + Simulator" where
  "renderScene s =
     (if m_busy s then Inr (call ShowBusyWindow s)
      else
        let s1 = call (TimeRecurring ''Render'') s
        in if frame (m_rtxState s1) \<ge> m_maxFrames s1 then Inr s1
           else if m_descaling s1 \<and> (word_of_int (m_descalingLevel s1) :: uint32_t) = 0
           then Inl DivideByZero
           else
             let e = extent (m_renderRegion s1);
                 render_size =
                   (if m_descaling s1
                    then \<lparr>width = width e div word_of_int (m_descalingLevel s1),
                          height = height e div word_of_int (m_descalingLevel s1)\<rparr>
                    else e);
                 s2 = s1\<lparr>m_rtxState := (m_rtxState s1)
                          \<lparr>rtx_size := (width render_size, height render_size)\<rparr>\<rparr>
             in if m_rndMethod s2 = eNone then Inl OutOfBounds
                else
                  let s3 = call (RenderRun (m_rndMethod s2) render_size)
                             (call (RenderSetPushContants (m_rndMethod s2)) s2)
                  in Inr (if autoExposure s3 \<noteq> 0
                          then call GenMipmap (call (TimeRecurring ''Mipmap'') s3)
                          else s3))"

section \<open>Switching the renderer\<close>

text \<open>\<^verbatim>\<open>Simulator::createRender\<close>.\<close>

definition createRender :: "RndMethod \<Rightarrow> Simulator \<Rightarrow> fault + Simulator" where
  "createRender method s =
     (if method = m_rndMethod s then Inr s
      else
        let s1 = (if m_rndMethod s \<noteq> eNone
                  then call (RenderDestroy (m_rndMethod s)) (call DeviceWaitIdle s)
                  else s);
            s2 = s1\<lparr>m_rndMethod := method\<rparr>
        in pRender_create s2)"

text \<open>\<^verbatim>\<open>Simulator::setRenderRegion\<close>; the \<^verbatim>\<open>memcmp\<close> compares the four 32-bit fields.\<close>

definition setRenderRegion :: "VkRect2D \<Rightarrow> Simulator \<Rightarrow> Simulator" where
  "setRenderRegion sz s =
     (if m_renderRegion s \<noteq> sz then resetFrame s else s)\<lparr>m_renderRegion := sz\<rparr>"

section \<open>The settings panel\<close>

text \<open>
  What one widget call reports: the value it returns (the flag accumulated with
  \<^verbatim>\<open>changed |= ...\<close>) and the value it writes through its pointer, if it writes one.
\<close>

type_synonym 'a widget = "bool \<times> 'a option"

definition returned :: "'a widget \<Rightarrow> bool" where
  "returned w = fst w"

definition written :: "'a widget \<Rightarrow> 'a \<Rightarrow> 'a" where
  "written w old = (case snd w of None \<Rightarrow> old | Some v \<Rightarrow> v)"

text \<open>
  The widgets of one pass of \<^verbatim>\<open>SimGUI::render\<close>, panel by panel.  A widget whose target
  is a field of the model state is a \<open>widget\<close>; a widget whose target lies outside the
  model state (the camera manipulator, the aperture of the scene camera, the float fields
  of the tonemapper, \<^verbatim>\<open>m_sunAndSky\<close>) is the flag it returns.  \<open>anyhit_checkbox\<close> toggles
  the static \<^verbatim>\<open>bAnyHit\<close> of the panel; \<open>pipeline_selection\<close> is \<open>None\<close> when the
  selection returns false and otherwise the entry left in the local \<^verbatim>\<open>method\<close>.  A
  \<^verbatim>\<open>Group\<close> runs its body when it is open.
\<close>

record CameraPanel =
  camera_widget :: bool
  aperture_slider :: bool

record RayTracingPanel =
  maxDepth_slider :: "int widget"
  maxSamples_slider :: "int widget"
  maxFrames_slider :: "int widget"
  descaling_slider :: "int widget"
  accumulate_slider :: "int widget"
  pbrMode_selection :: "int widget"
  anyhit_checkbox :: bool
  open_Debugging :: bool
  debugMode_selection :: "int widget"
  minHeatmap_drag :: "int widget"
  maxHeatmap_drag :: "int widget"
  pipeline_selection :: "RndMethod option"

record TonemapperPanel =
  autoExposure_checkbox :: "bool widget"
  tonemapper_sliders :: "bool list"
  open_AutoSettings :: bool
  localExposure_checkbox :: "bool widget"
  autoSettings_sliders :: "bool list"

record EnvironmentPanel =
  useSunSky_checkbox :: bool
  hdrMultiplier_slider :: "float widget"
  sunsky_widgets :: "bool list"

text \<open>
  One pass: for each \<^verbatim>\<open>CollapsingHeader\<close> whether it is open, the four panels, and the
  rectangle of the viewport window.
\<close>

record GuiPass =
  open_Camera :: bool
  open_RayTracing :: bool
  open_Tonemapper :: bool
  open_Environment :: bool
  camera_panel :: CameraPanel
  raytracing_panel :: RayTracingPanel
  tonemapper_panel :: TonemapperPanel
  environment_panel :: EnvironmentPanel
  viewport :: VkRect2D

text \<open>\<^verbatim>\<open>changed |= w\<close> for each widget result \<open>w\<close>, starting from \<open>changed\<close>.\<close>

definition accumulate_changed :: "bool \<Rightarrow> bool list \<Rightarrow> bool" where
  "accumulate_changed changed ws = foldl (\<or>) changed ws"

text \<open>\<^verbatim>\<open>eHeatmap\<close> of \<^verbatim>\<open>enum DebugMode\<close> in \<^verbatim>\<open>host_device.h\<close>.\<close>

definition eHeatmap :: int where
  "eHeatmap = 13"

text \<open>\<^verbatim>\<open>std::bitset<8>::set(pos, val)\<close>.\<close>

definition bitset_set :: "nat \<Rightarrow> bool \<Rightarrow> 8 word \<Rightarrow> 8 word" where
  "bitset_set pos val b = (if val then set_bit pos b else unset_bit pos b)"

text \<open>\<^verbatim>\<open>SimGUI::guiCamera\<close>.\<close>

definition guiCamera :: "CameraPanel \<Rightarrow> bool" where
  "guiCamera p = accumulate_changed False [camera_widget p, aperture_slider p]"

text \<open>\<^verbatim>\<open>SimGUI::guiRayTracing\<close>.\<close>

definition guiRayTracing :: "RayTracingPanel \<Rightarrow> Simulator \<Rightarrow> fault + bool \<times> Simulator" where
  "guiRayTracing p s =
     (let rtx = m_rtxState s;
          s1 = s\<lparr>m_rtxState :=
                   rtx\<lparr>maxDepth := written (maxDepth_slider p) (maxDepth rtx),
                       maxSamples := written (maxSamples_slider p) (maxSamples rtx),
                       accumulate := written (accumulate_slider p) (accumulate rtx),
                       pbrMode := written (pbrMode_selection p) (pbrMode rtx)\<rparr>,
                 m_maxFrames := written (maxFrames_slider p) (m_maxFrames s),
                 m_descalingLevel := written (descaling_slider p) (m_descalingLevel s)\<rparr>;
          changed =
            accumulate_changed False
              [returned (maxDepth_slider p), returned (maxSamples_slider p),
               returned (maxFrames_slider p), returned (descaling_slider p),
               returned (accumulate_slider p), returned (pbrMode_selection p)];
          anyhit = (m_rndMethod s1 = eRtxPipeline \<and> anyhit_checkbox p);
          s2 = (if anyhit then call RtxUseAnyHit (call DeviceWaitIdle s1) else s1);
          changed1 = (if anyhit then True else changed);
          rtx2 = m_rtxState s2;
          mode = written (debugMode_selection p) (debugging_mode rtx2);
          s3 = (if open_Debugging p
                then s2\<lparr>m_rtxState :=
                          (if mode = eHeatmap
                           then rtx2\<lparr>debugging_mode := mode,
                                     minHeatmap := written (minHeatmap_drag p) (minHeatmap rtx2),
                                     maxHeatmap := written (maxHeatmap_drag p) (maxHeatmap rtx2)\<rparr>
                           else rtx2\<lparr>debugging_mode := mode\<rparr>)\<rparr>
                else s2);
          changed2 =
            (if open_Debugging p
             then accumulate_changed changed1
                    (returned (debugMode_selection p)
                     # (if mode = eHeatmap
                        then [returned (minHeatmap_drag p), returned (maxHeatmap_drag p)]
                        else []))
             else changed1)
      in if m_supportRayQuery s3
         then (case pipeline_selection p of
                 None \<Rightarrow> Inr (changed2, s3)
               | Some method \<Rightarrow>
                   (case createRender method s3 of
                      Inl f \<Rightarrow> Inl f
                    | Inr s4 \<Rightarrow> Inr (True, s4)))
         else Inr (changed2, s3))"

text \<open>
  \<^verbatim>\<open>SimGUI::guiTonemapper\<close>.  The \<^verbatim>\<open>std::bitset<8> b(tm.autoExposure)\<close> keeps the low
  eight bits; the function ends with
  \<^verbatim>\<open>return false;  // no need to restart the renderer\<close>.
\<close>

definition guiTonemapper :: "TonemapperPanel \<Rightarrow> Simulator \<Rightarrow> bool \<times> Simulator" where
  "guiTonemapper p s =
     (let b = (word_of_int (autoExposure s) :: 8 word);
          auto_exposure = written (autoExposure_checkbox p) (bit b 0);
          changed =
            accumulate_changed False (returned (autoExposure_checkbox p) # tonemapper_sliders p);
          settings = (auto_exposure \<and> open_AutoSettings p);
          changed1 =
            (if settings
             then accumulate_changed changed
                    (returned (localExposure_checkbox p) # autoSettings_sliders p)
             else changed);
          b1 = (if settings
                then bitset_set 1 (written (localExposure_checkbox p) (bit b 1)) b
                else b);
          b2 = bitset_set 0 auto_exposure b1
      in (False, s\<lparr>autoExposure := uint b2\<rparr>))"

text \<open>\<^verbatim>\<open>SimGUI::guiEnvironment\<close>.\<close>

definition guiEnvironment :: "EnvironmentPanel \<Rightarrow> Simulator \<Rightarrow> bool \<times> Simulator" where
  "guiEnvironment p s =
     (accumulate_changed False
        ([useSunSky_checkbox p, returned (hdrMultiplier_slider p)] @ sunsky_widgets p),
      s\<lparr>m_rtxState := (m_rtxState s)
           \<lparr>hdrMultiplier :=
              written (hdrMultiplier_slider p) (hdrMultiplier (m_rtxState s))\<rparr>\<rparr>)"

text \<open>\<^verbatim>\<open>SimGUI::render\<close>, from \<^verbatim>\<open>ImGui::Begin("Settings")\<close> on.\<close>

definition SimGUI_render :: "GuiPass \<Rightarrow> Simulator \<Rightarrow> fault + Simulator" where
  "SimGUI_render g s =
     (let changed = False;
          changed1 = (if open_Camera g then changed \<or> guiCamera (camera_panel g)
                      else changed);
          r = (if open_RayTracing g
               then (case guiRayTracing (raytracing_panel g) s of
                       Inl f \<Rightarrow> Inl f
                     | Inr (c, s1) \<Rightarrow> Inr (changed1 \<or> c, s1))
               else Inr (changed1, s))
      in case r of
           Inl f \<Rightarrow> Inl f
         | Inr (changed2, s1) \<Rightarrow>
             (let t = (if open_Tonemapper g
                       then (changed2 \<or> fst (guiTonemapper (tonemapper_panel g) s1),
                             snd (guiTonemapper (tonemapper_panel g) s1))
                       else (changed2, s1));
                  e = (if open_Environment g
                       then (fst t \<or> fst (guiEnvironment (environment_panel g) (snd t)),
                             snd (guiEnvironment (environment_panel g) (snd t)))
                       else t);
                  s2 = (if fst e then resetFrame (snd e) else snd e)
              in Inr (setRenderRegion (viewport g) s2)))"

text \<open>
  Some control of the camera, ray tracing or environment panel reported a change in a
  pass: the panel's header is open and one of the widgets it draws returned true.
\<close>

definition restart_control_changed :: "GuiPass \<Rightarrow> Simulator \<Rightarrow> bool" where
  "restart_control_changed g s =
     (let c = camera_panel g; p = raytracing_panel g; e = environment_panel g
      in (open_Camera g \<and> (camera_widget c \<or> aperture_slider c))
         \<or> (open_RayTracing g
             \<and> (returned (maxDepth_slider p) \<or> returned (maxSamples_slider p)
                \<or> returned (maxFrames_slider p) \<or> returned (descaling_slider p)
                \<or> returned (accumulate_slider p) \<or> returned (pbrMode_selection p)
                \<or> (m_rndMethod s = eRtxPipeline \<and> anyhit_checkbox p)
                \<or> (open_Debugging p
                    \<and> (returned (debugMode_selection p)
                       \<or> (written (debugMode_selection p) (debugging_mode (m_rtxState s))
                             = eHeatmap
                           \<and> (returned (minHeatmap_drag p) \<or> returned (maxHeatmap_drag p)))))
                \<or> (m_supportRayQuery s \<and> pipeline_selection p \<noteq> None)))
         \<or> (open_Environment g
             \<and> (useSunSky_checkbox e \<or> returned (hdrMultiplier_slider e)
                \<or> True \<in> set (sunsky_widgets e))))"

section \<open>Concrete states\<close>

text \<open>
  The member initialisers of \<^verbatim>\<open>simulator.hpp\<close>, with the statics of \<^verbatim>\<open>updateFrame\<close>
  zero.  The tonemapper's \<^verbatim>\<open>autoExposure\<close> and the integral of the sky dome are
  initialised outside these sources; 0 and \<^verbatim>\<open>1.f\<close> stand for them here.
\<close>

definition initial_RtxState :: RtxState where
  "initial_RtxState =
     \<lparr>frame = 0, maxDepth = 10, maxSamples = 1, fireflyClampThreshold = 0x3F800000,
      hdrMultiplier = 0x3F800000, debugging_mode = 0, pbrMode = 0, pad0 = 0,
      rtx_size = (0, 0), minHeatmap = 0, maxHeatmap = 65000, accumulate = 0\<rparr>"

definition initial_Simulator :: Simulator where
  "initial_Simulator =
     \<lparr>m_rtxState = initial_RtxState, m_maxFrames = 100000, m_descaling = False,
      m_descalingLevel = 1, m_busy = False, m_busyReasonText = [], m_rndMethod = eNone,
      m_supportRayQuery = True,
      m_renderRegion = \<lparr>offset = \<lparr>x = 0, y = 0\<rparr>, extent = \<lparr>width = 0, height = 0\<rparr>\<rparr>,
      autoExposure = 0, skydome_integral = 0x3F800000,
      refCamMatrix = replicate 16 0, fov = 0, trace = []\<rparr>"

text \<open>A camera equal to the statics of \<open>initial_Simulator\<close>, and one with a field of
  view of \<^verbatim>\<open>60.f\<close>.\<close>

definition still_camera :: CameraManip where
  "still_camera = \<lparr>getMatrix = replicate 16 0, getFov = 0\<rparr>"

definition moved_camera :: CameraManip where
  "moved_camera = \<lparr>getMatrix = replicate 16 0, getFov = 0x42700000\<rparr>"

text \<open>Frame 5 of at most 10, and the state right after a reset with at most 10 frames.\<close>

definition frame5_of_10 :: Simulator where
  "frame5_of_10 =
     initial_Simulator\<lparr>m_rtxState := initial_RtxState\<lparr>frame := 5\<rparr>, m_maxFrames := 10\<rparr>"

definition reset_of_10 :: Simulator where
  "reset_of_10 =
     initial_Simulator\<lparr>m_rtxState := initial_RtxState\<lparr>frame := - 1\<rparr>, m_maxFrames := 10\<rparr>"

text \<open>Collaborators for the examples: loads succeed, every integral is \<^verbatim>\<open>1.f\<close>, and the
  product is only ever asked for \<^verbatim>\<open>1.f * 4.f\<close>.\<close>

definition example_env :: collaborators where
  "example_env =
     \<lparr>scene_load_ok = (\<lambda>f. True), hdr_integral = (\<lambda>f. 0x3F800000),
      float_mul = (\<lambda>a b. if a = 0x3F800000 then b else 0)\<rparr>"

text \<open>A running state: the pipeline renderer is active, frame 5 of at most 10.\<close>

definition running :: Simulator where
  "running = frame5_of_10\<lparr>m_rndMethod := eRtxPipeline\<rparr>"

text \<open>
  A pass in which no widget fires and the viewport stays where it is; one in which only
  the exposure slider of the tonemapper panel changed; one in which the user moved the
  ray depth slider to 9.
\<close>

definition untouched :: "'a widget" where
  "untouched = (False, None)"

definition quiet_pass :: GuiPass where
  "quiet_pass =
     \<lparr>open_Camera = True, open_RayTracing = True, open_Tonemapper = True,
      open_Environment = True,
      camera_panel = \<lparr>camera_widget = False, aperture_slider = False\<rparr>,
      raytracing_panel =
        \<lparr>maxDepth_slider = untouched, maxSamples_slider = untouched,
         maxFrames_slider = untouched, descaling_slider = untouched,
         accumulate_slider = untouched, pbrMode_selection = untouched,
         anyhit_checkbox = False, open_Debugging = False,
         debugMode_selection = untouched, minHeatmap_drag = untouched,
         maxHeatmap_drag = untouched, pipeline_selection = None\<rparr>,
      tonemapper_panel =
        \<lparr>autoExposure_checkbox = untouched,
         tonemapper_sliders = [False, False, False, False, False],
         open_AutoSettings = True, localExposure_checkbox = untouched,
         autoSettings_sliders = [False, False]\<rparr>,
      environment_panel =
        \<lparr>useSunSky_checkbox = False, hdrMultiplier_slider = untouched,
         sunsky_widgets = []\<rparr>,
      viewport = \<lparr>offset = \<lparr>x = 0, y = 0\<rparr>, extent = \<lparr>width = 0, height = 0\<rparr>\<rparr>\<rparr>"

definition tonemapper_pass :: GuiPass where
  "tonemapper_pass =
     quiet_pass\<lparr>tonemapper_panel := (tonemapper_panel quiet_pass)
                  \<lparr>tonemapper_sliders := [True, False, False, False, False]\<rparr>\<rparr>"

definition raytracing_pass :: GuiPass where
  "raytracing_pass =
     quiet_pass\<lparr>raytracing_panel := (raytracing_panel quiet_pass)
                  \<lparr>maxDepth_slider := (True, Some 9)\<rparr>\<rparr>"

section \<open>Frame counter: properties\<close>

lemma frame_resetFrame: "frame (m_rtxState (resetFrame s)) = - 1"
  by (simp add: resetFrame_def call_def)

lemma m_maxFrames_resetFrame: "m_maxFrames (resetFrame s) = m_maxFrames s"
  by (simp add: resetFrame_def call_def)

lemma m_maxFrames_updateFrame: "m_maxFrames (updateFrame cam s) = m_maxFrames s"
  by (simp add: updateFrame_def Let_def m_maxFrames_resetFrame)

lemma updateFrame_int32:
  assumes "int32 (frame (m_rtxState s))" and "int32 (m_maxFrames s)"
  shows "int32 (frame (m_rtxState (updateFrame cam s)))"
  using assms
  by (auto simp: updateFrame_def Let_def int32_def frame_resetFrame m_maxFrames_resetFrame)

lemma frame_updateFrame_unchanged:
  "\<not> camera_changed cam s \<Longrightarrow>
   frame (m_rtxState (updateFrame cam s)) =
     (if frame (m_rtxState s) < m_maxFrames s then frame (m_rtxState s) + 1
      else frame (m_rtxState s))"
  by (simp add: updateFrame_def)

lemma frame_updateFrame_changed:
  "camera_changed cam s \<Longrightarrow>
   frame (m_rtxState (updateFrame cam s)) = (if - 1 < m_maxFrames s then 0 else - 1)"
  by (simp add: updateFrame_def Let_def frame_resetFrame m_maxFrames_resetFrame)

lemma m_maxFrames_updateFrames: "m_maxFrames (updateFrames cams s) = m_maxFrames s"
  by (induction cams arbitrary: s) (simp_all add: m_maxFrames_updateFrame)

lemma frame_updateFrames:
  "no_reset cams s \<Longrightarrow>
   frame (m_rtxState (updateFrames cams s)) =
     (if frame (m_rtxState s) < m_maxFrames s
      then min (frame (m_rtxState s) + int (length cams)) (m_maxFrames s)
      else frame (m_rtxState s))"
proof (induction cams arbitrary: s)
  case Nil
  show ?case by simp
next
  case (Cons cam cams)
  from Cons.prems have unchanged: "\<not> camera_changed cam s"
    and rest: "no_reset cams (updateFrame cam s)"
    by simp_all
  show ?case
    using Cons.IH [OF rest] frame_updateFrame_unchanged [OF unchanged]
    by (auto simp: m_maxFrames_updateFrame)
qed

lemma updateFrames_append:
  "updateFrames (xs @ ys) s = updateFrames ys (updateFrames xs s)"
  by (induction xs arbitrary: s) simp_all

lemma no_reset_append:
  "no_reset (xs @ ys) s = (no_reset xs s \<and> no_reset ys (updateFrames xs s))"
  by (induction xs arbitrary: s) simp_all

lemma no_reset_take: "no_reset cams s \<Longrightarrow> no_reset (take k cams) s"
proof -
  assume "no_reset cams s"
  then have "no_reset (take k cams @ drop k cams) s" by simp
  then show ?thesis unfolding no_reset_append by simp
qed

lemma camera_changed_moved: "camera_changed moved_camera frame5_of_10"
  by (simp add: camera_changed_def moved_camera_def frame5_of_10_def initial_Simulator_def
      memcmp_ne_def float_ne_def float_isnan_def float_iszero_def)

lemma no_reset_still: "no_reset (replicate 12 still_camera) reset_of_10"
  by code_simp

section \<open>Claims about the frame counter\<close>

text \<open>
  C1 (as stated: a camera or field-of-view change detected by \<^verbatim>\<open>updateFrame\<close> leaves
  \<^verbatim>\<open>m_rtxState.frame\<close> at exactly -1).  It does not: at frame 5 of at most 10 a changed
  field of view leaves the counter at 0.
\<close>

theorem C1_reset_not_minus_one:
  "camera_changed moved_camera frame5_of_10 \<and>
   frame (m_rtxState frame5_of_10) = 5 \<and>
   frame (m_rtxState (updateFrame moved_camera frame5_of_10)) = 0 \<and>
   frame (m_rtxState (updateFrame moved_camera frame5_of_10)) \<noteq> - 1"
  by (simp add: camera_changed_moved frame_updateFrame_changed)
     (simp add: frame5_of_10_def initial_Simulator_def initial_RtxState_def)

text \<open>
  C1, amended: when \<^verbatim>\<open>updateFrame\<close> detects a camera or field-of-view change, the reset
  to -1 comes first and the advance is applied to the reset value, so the counter after
  the step is 0 whenever \<^verbatim>\<open>m_maxFrames\<close> is at least 0 (and -1 otherwise), whatever its
  previous value was.
\<close>

theorem C1_reset_then_advance:
  "camera_changed cam s \<Longrightarrow>
   frame (m_rtxState (updateFrame cam s)) = (if 0 \<le> m_maxFrames s then 0 else - 1)"
  by (simp add: frame_updateFrame_changed)

theorem C1_reset_then_advance_witness:
  "camera_changed moved_camera frame5_of_10 \<and>
   frame (m_rtxState (updateFrame moved_camera frame5_of_10)) = 0"
proof -
  have changed: "camera_changed moved_camera frame5_of_10"
    by (rule camera_changed_moved)
  have "m_maxFrames frame5_of_10 = 10"
    by (simp add: frame5_of_10_def)
  with C1_reset_then_advance [OF changed] changed show ?thesis
    by simp
qed

text \<open>
  C2 (as stated: from frame -1 with \<^verbatim>\<open>m_maxFrames\<close> 10, twelve calls of \<^verbatim>\<open>updateFrame\<close>
  without a reset leave the counter at 9).  They leave it at 10.
\<close>

theorem C2_twelve_steps_not_9:
  "frame (m_rtxState reset_of_10) = - 1 \<and> m_maxFrames reset_of_10 = 10 \<and>
   no_reset (replicate 12 still_camera) reset_of_10 \<and>
   frame (m_rtxState (updateFrames (replicate 12 still_camera) reset_of_10)) \<noteq> 9"
  by code_simp

text \<open>
  C2, amended: from frame -1 with \<^verbatim>\<open>m_maxFrames\<close> 10, twelve calls of \<^verbatim>\<open>updateFrame\<close>
  without a reset leave the counter at 10: it is capped at \<^verbatim>\<open>m_maxFrames\<close>.
\<close>

theorem C2_twelve_steps_reach_10:
  assumes "frame (m_rtxState s) = - 1" and "m_maxFrames s = 10"
    and "length cams = 12" and "no_reset cams s"
  shows "frame (m_rtxState (updateFrames cams s)) = 10"
  using frame_updateFrames [OF assms(4)] assms(1-3) by simp

theorem C2_twelve_steps_reach_10_witness:
  "frame (m_rtxState reset_of_10) = - 1 \<and> m_maxFrames reset_of_10 = 10 \<and>
   length (replicate 12 still_camera) = 12 \<and>
   no_reset (replicate 12 still_camera) reset_of_10 \<and>
   frame (m_rtxState (updateFrames (replicate 12 still_camera) reset_of_10)) = 10"
proof -
  have f: "frame (m_rtxState reset_of_10) = - 1"
    by (simp add: reset_of_10_def)
  have m: "m_maxFrames reset_of_10 = 10"
    by (simp add: reset_of_10_def)
  have l: "length (replicate 12 still_camera) = 12"
    by simp
  note n = no_reset_still
  from C2_twelve_steps_reach_10 [OF f m l n] f m l n show ?thesis
    by simp
qed

text \<open>
  C4: along any run of \<^verbatim>\<open>updateFrame\<close> calls none of which resets, each call adds exactly
  1 to \<^verbatim>\<open>m_rtxState.frame\<close> while it is below \<^verbatim>\<open>m_maxFrames\<close> and leaves it as it is
  from then on; started below \<^verbatim>\<open>m_maxFrames\<close>, the counter after \<open>k\<close> calls is the
  smaller of the start plus \<open>k\<close> and \<^verbatim>\<open>m_maxFrames\<close>.
\<close>

theorem C4_monotonic_accumulation:
  assumes "no_reset cams s" and "k < length cams"
  shows "frame (m_rtxState (updateFrames (take (Suc k) cams) s)) =
           (if frame (m_rtxState (updateFrames (take k cams) s)) < m_maxFrames s
            then frame (m_rtxState (updateFrames (take k cams) s)) + 1
            else frame (m_rtxState (updateFrames (take k cams) s)))
         \<and> frame (m_rtxState (updateFrames (take (Suc k) cams) s)) =
           (if frame (m_rtxState s) < m_maxFrames s
            then min (frame (m_rtxState s) + int (Suc k)) (m_maxFrames s)
            else frame (m_rtxState s))"
proof -
  have before: "no_reset (take k cams) s" and after: "no_reset (take (Suc k) cams) s"
    using assms(1) by (rule no_reset_take)+
  from assms(2) have len: "length (take k cams) = k" "length (take (Suc k) cams) = Suc k"
    by simp_all
  show ?thesis
    using frame_updateFrames [OF before] frame_updateFrames [OF after] len
    by auto
qed

theorem C4_monotonic_accumulation_witness:
  "no_reset (replicate 12 still_camera) reset_of_10 \<and> (10::nat) < length (replicate 12 still_camera) \<and>
   frame (m_rtxState (updateFrames (take 10 (replicate 12 still_camera)) reset_of_10)) = 9 \<and>
   frame (m_rtxState (updateFrames (take 11 (replicate 12 still_camera)) reset_of_10)) = 10"
proof -
  note n = no_reset_still
  have k: "(10::nat) < length (replicate 12 still_camera)"
    by simp
  have nine: "frame (m_rtxState (updateFrames (take 10 (replicate 12 still_camera)) reset_of_10)) = 9"
    by code_simp
  have "m_maxFrames reset_of_10 = 10"
    by (simp add: reset_of_10_def)
  with C4_monotonic_accumulation [OF n k] nine n k show ?thesis
    by (simp del: take_replicate replicate.simps)
qed

section \<open>Claims about the busy flag and the load session\<close>

text \<open>
  A path that ends in one of the three supported extensions has that extension, provided
  the file name has something in front of it; a file named just \<^verbatim>\<open>.hdr\<close> has none.
\<close>

lemma path_filename_append:
  assumes "CHR ''/'' \<notin> set name" and "dir = [] \<or> last dir = CHR ''/''"
  shows "path_filename (dir @ name) = name"
proof -
  have "takeWhile (\<lambda>c. c \<noteq> CHR ''/'') (rev name @ rev dir) = rev name"
  proof (cases dir rule: rev_cases)
    case Nil
    with assms(1) show ?thesis by auto
  next
    case (snoc ys y)
    with assms(2) have "y = CHR ''/''" by simp
    with snoc assms(1) show ?thesis
      by (subst takeWhile_append2) auto
  qed
  then show ?thesis by (simp add: path_filename_def)
qed

lemma path_extension_suffix:
  assumes "stem \<noteq> []" and "CHR ''/'' \<notin> set stem"
    and "dir = [] \<or> last dir = CHR ''/''"
    and "ext \<in> {''gltf'', ''glb'', ''hdr''}"
  shows "path_extension (dir @ stem @ CHR ''.'' # ext) = CHR ''.'' # ext"
proof -
  have ext: "CHR ''/'' \<notin> set ext" "CHR ''.'' \<notin> set ext"
    using assms(4) by auto
  have "CHR ''/'' \<notin> set (stem @ CHR ''.'' # ext)"
    using assms(2) ext(1) by simp
  from path_filename_append [OF this assms(3)]
  have name: "path_filename (dir @ stem @ CHR ''.'' # ext) = stem @ CHR ''.'' # ext" .
  have tw: "takeWhile (\<lambda>c. c \<noteq> CHR ''.'') (rev ext @ CHR ''.'' # rev stem) = rev ext"
    using ext(2) by (subst takeWhile_append2) auto
  obtain a as where stem: "stem = a # as"
    using assms(1) by (cases stem) auto
  have "stem @ CHR ''.'' # ext \<noteq> ''.''" "stem @ CHR ''.'' # ext \<noteq> ''..''"
    using assms(4) by (auto simp: stem Cons_eq_append_conv)
  then show ?thesis
    using assms(1) by (simp add: path_extension_def name tw Let_def)
qed

lemma path_extension_dotfile: "path_extension ''/tmp/.hdr'' = []"
  by (simp add: path_extension_def path_filename_def)

lemma m_busy_running: "\<not> m_busy running"
  by (simp add: running_def frame5_of_10_def initial_Simulator_def)

lemma m_rndMethod_running: "m_rndMethod running = eRtxPipeline"
  by (simp add: running_def)

lemma frame_running: "frame (m_rtxState running) = 5"
  by (simp add: running_def frame5_of_10_def)

lemma trace_running: "trace running = []"
  by (simp add: running_def frame5_of_10_def initial_Simulator_def)

lemma path_extension_glb: "path_extension ''scene.glb'' = ''.glb''"
  by (simp add: path_extension_def path_filename_def)

lemma path_extension_hdr: "path_extension ''env.hdr'' = ''.hdr''"
  by (simp add: path_extension_def path_filename_def)

lemma path_extension_txt: "path_extension ''notes.txt'' = ''.txt''"
  by (simp add: path_extension_def path_filename_def)

lemma trace_loadAssets:
  "loadAssets env filename s = Inr s' \<Longrightarrow> \<exists>es. trace s' = trace s @ DeviceWaitIdle # es"
  by (auto simp: loadAssets_def loadAssets_thread_def loadAssets_caller_def Let_def
      pRender_create_def loadScene_def loadEnvironmentHdr_def updateHdrDescriptors_def
      resetFrame_def call_def split: if_splits)

text \<open>
  C3: in a frame in which \<^verbatim>\<open>m_busy\<close> is true, \<^verbatim>\<open>renderScene\<close> only shows the busy window
  and returns: it adds no \<^verbatim>\<open>run\<close> of a renderer to the trace and changes nothing else;
  \<^verbatim>\<open>updateUniformBuffer\<close> does nothing at all.  Neither clears \<^verbatim>\<open>m_busy\<close>.
\<close>

theorem C3_busy_exclusion:
  assumes "m_busy s"
  shows "renderScene s = Inr (s\<lparr>trace := trace s @ [ShowBusyWindow]\<rparr>)
         \<and> updateUniformBuffer s = s"
  using assms by (simp add: renderScene_def updateUniformBuffer_def call_def)

theorem C3_busy_exclusion_witness:
  "m_busy (loadAssets_caller running) \<and>
   renderScene (loadAssets_caller running) =
     Inr (running\<lparr>m_busy := True, trace := [DeviceWaitIdle, ShowBusyWindow]\<rparr>) \<and>
   updateUniformBuffer (loadAssets_caller running) = loadAssets_caller running"
proof -
  have busy: "m_busy (loadAssets_caller running)"
    by (simp add: loadAssets_caller_def call_def)
  have tr: "trace (loadAssets_caller running) = [DeviceWaitIdle]"
    by (simp add: loadAssets_caller_def call_def trace_running)
  from C3_busy_exclusion [OF busy] busy tr show ?thesis
    by (simp add: loadAssets_caller_def call_def)
qed

text \<open>
  C7 (as stated: a load of a file with an unsupported extension takes neither path and
  changes no state).  Neither path is taken, but the frame counter is reset: loading
  \<^verbatim>\<open>notes.txt\<close> at frame 5 leaves it at -1.
\<close>

theorem C7_unsupported_resets_frame:
  "path_extension ''notes.txt'' = ''.txt'' \<and>
   frame (m_rtxState running) = 5 \<and>
   loadAssets example_env ''notes.txt'' running =
     Inr (running\<lparr>m_rtxState := (m_rtxState running)\<lparr>frame := - 1\<rparr>,
                  trace := [DeviceWaitIdle, ResetFrame]\<rparr>) \<and>
   loadAssets example_env ''notes.txt'' running \<noteq> Inr running"
proof -
  have eq: "loadAssets example_env ''notes.txt'' running =
     Inr (running\<lparr>m_rtxState := (m_rtxState running)\<lparr>frame := - 1\<rparr>,
                  trace := [DeviceWaitIdle, ResetFrame]\<rparr>)"
    by (simp add: loadAssets_def loadAssets_thread_def loadAssets_caller_def
        path_extension_txt resetFrame_def call_def trace_running)
       (simp add: running_def frame5_of_10_def initial_Simulator_def)
  have "trace (running\<lparr>m_rtxState := (m_rtxState running)\<lparr>frame := - 1\<rparr>,
                  trace := [DeviceWaitIdle, ResetFrame]\<rparr>) \<noteq> trace running"
    by (simp add: trace_running)
  then have "running\<lparr>m_rtxState := (m_rtxState running)\<lparr>frame := - 1\<rparr>,
                  trace := [DeviceWaitIdle, ResetFrame]\<rparr> \<noteq> running"
    by metis
  with eq show ?thesis
    by (simp add: path_extension_txt frame_running)
qed

text \<open>
  C7, amended: a load session dispatches on the extension of the path.  For \<^verbatim>\<open>.gltf\<close> or
  \<^verbatim>\<open>.glb\<close> it takes the scene path (scene load, acceleration structure, picker, reset,
  destroy of both renderers, then create of the active one, which indexes \<^verbatim>\<open>m_pRender\<close>
  out of range when no renderer is active) and nothing of the HDR path; for \<^verbatim>\<open>.hdr\<close> it
  takes the HDR path only (environment load, firefly threshold, HDR descriptors); for any
  other extension it takes neither, and the call leaves \<^verbatim>\<open>m_busy\<close> false and changes
  nothing else but the frame counter, which it resets to -1 after the device-idle wait.
\<close>

theorem C7_extension_dispatch:
  "loadAssets env filename s =
     (if path_extension filename = ''.gltf'' \<or> path_extension filename = ''.glb''
      then (case pRender_create
                   (s\<lparr>m_rtxState := (m_rtxState s)\<lparr>frame := - 1\<rparr>,
                      m_busy := True,
                      m_busyReasonText := ''Loading scene '',
                      trace := trace s @
                        [DeviceWaitIdle, SceneLoad filename (scene_load_ok env filename),
                         AccelStructCreate, PickerSetTlas, ResetFrame,
                         RenderDestroy eRtxPipeline, RenderDestroy eRayQuery]\<rparr>) of
              Inl f \<Rightarrow> Inl f
            | Inr s1 \<Rightarrow> Inr ((resetFrame s1)\<lparr>m_busy := False\<rparr>))
      else if path_extension filename = ''.hdr''
      then Inr (s\<lparr>m_rtxState := (m_rtxState s)
                     \<lparr>frame := - 1,
                      fireflyClampThreshold :=
                        float_mul env (hdr_integral env filename) float_4\<rparr>,
                  m_busy := False,
                  m_busyReasonText := ''Loading HDR '',
                  skydome_integral := hdr_integral env filename,
                  trace := trace s @
                    [DeviceWaitIdle, SkydomeLoadEnvironment filename,
                     UpdateHdrDescriptors, ResetFrame]\<rparr>)
      else Inr (s\<lparr>m_rtxState := (m_rtxState s)\<lparr>frame := - 1\<rparr>,
                  m_busy := False,
                  trace := trace s @ [DeviceWaitIdle, ResetFrame]\<rparr>))
   \<and> ((path_extension filename = ''.gltf'' \<or> path_extension filename = ''.glb'')
        \<and> m_rndMethod s \<noteq> eNone \<longrightarrow>
       loadAssets env filename s =
         Inr (s\<lparr>m_rtxState := (m_rtxState s)\<lparr>frame := - 1\<rparr>,
                m_busy := False,
                m_busyReasonText := ''Loading scene '',
                trace := trace s @
                  [DeviceWaitIdle, SceneLoad filename (scene_load_ok env filename),
                   AccelStructCreate, PickerSetTlas, ResetFrame,
                   RenderDestroy eRtxPipeline, RenderDestroy eRayQuery,
                   RenderCreate (m_rndMethod s), ResetFrame]\<rparr>))"
  by (simp add: loadAssets_def loadAssets_thread_def loadAssets_caller_def Let_def
      pRender_create_def loadScene_def loadEnvironmentHdr_def updateHdrDescriptors_def
      resetFrame_def call_def)

theorem C7_extension_dispatch_witness:
  "loadAssets example_env ''scene.glb'' running =
     Inr (running\<lparr>m_rtxState := (m_rtxState running)\<lparr>frame := - 1\<rparr>,
                  m_busy := False,
                  m_busyReasonText := ''Loading scene '',
                  trace := [DeviceWaitIdle, SceneLoad ''scene.glb'' True, AccelStructCreate,
                            PickerSetTlas, ResetFrame, RenderDestroy eRtxPipeline,
                            RenderDestroy eRayQuery, RenderCreate eRtxPipeline, ResetFrame]\<rparr>)
   \<and> loadAssets example_env ''env.hdr'' running =
     Inr (running\<lparr>m_rtxState := (m_rtxState running)
                     \<lparr>frame := - 1, fireflyClampThreshold := float_4\<rparr>,
                  m_busy := False,
                  m_busyReasonText := ''Loading HDR '',
                  skydome_integral := 0x3F800000,
                  trace := [DeviceWaitIdle, SkydomeLoadEnvironment ''env.hdr'',
                            UpdateHdrDescriptors, ResetFrame]\<rparr>)
   \<and> loadAssets example_env ''notes.txt'' running =
     Inr (running\<lparr>m_rtxState := (m_rtxState running)\<lparr>frame := - 1\<rparr>,
                  m_busy := False,
                  trace := [DeviceWaitIdle, ResetFrame]\<rparr>)
   \<and> loadAssets example_env ''scene.glb'' initial_Simulator = Inl OutOfBounds"
proof -
  have active: "(path_extension ''scene.glb'' = ''.gltf'' \<or> path_extension ''scene.glb'' = ''.glb'')
                \<and> m_rndMethod running \<noteq> eNone"
    by (simp add: path_extension_glb m_rndMethod_running)
  have glb: "loadAssets example_env ''scene.glb'' running =
     Inr (running\<lparr>m_rtxState := (m_rtxState running)\<lparr>frame := - 1\<rparr>,
                  m_busy := False,
                  m_busyReasonText := ''Loading scene '',
                  trace := [DeviceWaitIdle, SceneLoad ''scene.glb'' True, AccelStructCreate,
                            PickerSetTlas, ResetFrame, RenderDestroy eRtxPipeline,
                            RenderDestroy eRayQuery, RenderCreate eRtxPipeline, ResetFrame]\<rparr>)"
    using C7_extension_dispatch [of example_env "''scene.glb''" running, THEN conjunct2]
      active
    by (simp add: m_rndMethod_running trace_running example_env_def)
  have hdr: "loadAssets example_env ''env.hdr'' running =
     Inr (running\<lparr>m_rtxState := (m_rtxState running)
                     \<lparr>frame := - 1, fireflyClampThreshold := float_4\<rparr>,
                  m_busy := False,
                  m_busyReasonText := ''Loading HDR '',
                  skydome_integral := 0x3F800000,
                  trace := [DeviceWaitIdle, SkydomeLoadEnvironment ''env.hdr'',
                            UpdateHdrDescriptors, ResetFrame]\<rparr>)"
    using C7_extension_dispatch [of example_env "''env.hdr''" running, THEN conjunct1]
    by (simp add: path_extension_hdr trace_running example_env_def)
  have other: "loadAssets example_env ''notes.txt'' running =
     Inr (running\<lparr>m_rtxState := (m_rtxState running)\<lparr>frame := - 1\<rparr>,
                  m_busy := False,
                  trace := [DeviceWaitIdle, ResetFrame]\<rparr>)"
    using C7_extension_dispatch [of example_env "''notes.txt''" running, THEN conjunct1]
    by (simp add: path_extension_txt trace_running)
  have inactive: "loadAssets example_env ''scene.glb'' initial_Simulator = Inl OutOfBounds"
    using C7_extension_dispatch
            [of example_env "''scene.glb''" initial_Simulator, THEN conjunct1]
    by (simp add: path_extension_glb pRender_create_def initial_Simulator_def)
  from glb hdr other inactive show ?thesis
    by (intro conjI)
qed

text \<open>
  C8: every load session, whatever the extension of the path and whether or not the
  scene load succeeds, ends by resetting the frame counter to -1 while \<^verbatim>\<open>m_busy\<close> is still
  true and then setting \<^verbatim>\<open>m_busy\<close> to false.  (The one exception is not a completion: a
  scene load with no renderer active indexes \<^verbatim>\<open>m_pRender\<close> out of range.)
\<close>

theorem C8_session_completion:
  "(if (path_extension filename = ''.gltf'' \<or> path_extension filename = ''.glb'')
       \<and> m_rndMethod s = eNone
    then loadAssets env filename s = Inl OutOfBounds
    else \<exists>mid. m_busy mid
           \<and> loadAssets env filename s = Inr ((resetFrame mid)\<lparr>m_busy := False\<rparr>)
           \<and> frame (m_rtxState ((resetFrame mid)\<lparr>m_busy := False\<rparr>)) = - 1
           \<and> \<not> m_busy ((resetFrame mid)\<lparr>m_busy := False\<rparr>))"
proof -
  define s0 where "s0 = loadAssets_caller s"
  define scene where
    "scene = call (RenderDestroy eRayQuery)
               (call (RenderDestroy eRtxPipeline)
                 (loadScene env filename (s0\<lparr>m_busyReasonText := ''Loading scene ''\<rparr>)))"
  define hdr where
    "hdr = updateHdrDescriptors
             (loadEnvironmentHdr env filename (s0\<lparr>m_busyReasonText := ''Loading HDR ''\<rparr>))"
  have busy0: "m_busy s0"
    by (simp add: s0_def loadAssets_caller_def call_def)
  have busy_scene: "m_busy scene"
    by (simp add: scene_def loadScene_def resetFrame_def call_def busy0)
  have busy_hdr: "m_busy hdr"
    by (simp add: hdr_def loadEnvironmentHdr_def updateHdrDescriptors_def call_def Let_def
        busy0)
  have method_scene: "m_rndMethod scene = m_rndMethod s"
    by (simp add: scene_def s0_def loadScene_def resetFrame_def call_def
        loadAssets_caller_def)
  have final: "frame (m_rtxState ((resetFrame mid)\<lparr>m_busy := False\<rparr>)) = - 1
              \<and> \<not> m_busy ((resetFrame mid)\<lparr>m_busy := False\<rparr>)" for mid
    by (simp add: frame_resetFrame)
  consider (ub) "path_extension filename = ''.gltf'' \<or> path_extension filename = ''.glb''"
      "m_rndMethod s = eNone"
    | (scene) "path_extension filename = ''.gltf'' \<or> path_extension filename = ''.glb''"
      "m_rndMethod s \<noteq> eNone"
    | (hdr) "path_extension filename = ''.hdr''"
    | (other) "path_extension filename \<noteq> ''.gltf''" "path_extension filename \<noteq> ''.glb''"
      "path_extension filename \<noteq> ''.hdr''"
    by blast
  then show ?thesis
  proof cases
    case ub
    have "loadAssets env filename s = Inl OutOfBounds"
      using ub method_scene
      by (auto simp: loadAssets_def loadAssets_thread_def pRender_create_def
          scene_def s0_def)
    with ub show ?thesis by simp
  next
    case scene
    have "loadAssets env filename s =
            Inr ((resetFrame (call (RenderCreate (m_rndMethod s)) scene))\<lparr>m_busy := False\<rparr>)"
      using scene(1) scene(2) method_scene
      by (auto simp: loadAssets_def loadAssets_thread_def pRender_create_def
          scene_def s0_def)
    moreover have "m_busy (call (RenderCreate (m_rndMethod s)) scene)"
      by (simp add: call_def busy_scene)
    ultimately show ?thesis
      using scene(2) final by auto
  next
    case hdr
    have "loadAssets env filename s = Inr ((resetFrame hdr)\<lparr>m_busy := False\<rparr>)"
      using hdr by (simp add: loadAssets_def loadAssets_thread_def hdr_def s0_def)
    with busy_hdr hdr final show ?thesis by auto
  next
    case other
    have "loadAssets env filename s = Inr ((resetFrame s0)\<lparr>m_busy := False\<rparr>)"
      using other by (simp add: loadAssets_def loadAssets_thread_def s0_def)
    with busy0 other final show ?thesis by auto
  qed
qed

theorem C8_session_completion_witness:
  "\<exists>mid. m_busy mid
     \<and> loadAssets (example_env\<lparr>scene_load_ok := (\<lambda>f. False)\<rparr>) ''scene.glb'' running =
         Inr ((resetFrame mid)\<lparr>m_busy := False\<rparr>)
     \<and> frame (m_rtxState ((resetFrame mid)\<lparr>m_busy := False\<rparr>)) = - 1
     \<and> \<not> m_busy ((resetFrame mid)\<lparr>m_busy := False\<rparr>)"
  using C8_session_completion [of "''scene.glb''" running
      "example_env\<lparr>scene_load_ok := (\<lambda>f. False)\<rparr>"]
  by (simp add: m_rndMethod_running)

text \<open>
  C9: when \<^verbatim>\<open>m_busy\<close> is true, \<^verbatim>\<open>onFileDrop\<close> returns at once, without calling
  \<^verbatim>\<open>loadAssets\<close> and with the state as it was; the menu entries call \<^verbatim>\<open>loadAssets\<close>
  whether or not \<^verbatim>\<open>m_busy\<close> is true, which never leaves the state as it was.
\<close>

theorem C9_file_drop_rejected_when_busy:
  assumes "m_busy s"
  shows "onFileDrop env filename s = Inr s
         \<and> menuBar_open env filename s = loadAssets env filename s
         \<and> menuBar_open env filename s \<noteq> Inr s"
proof -
  have "loadAssets env filename s \<noteq> Inr s"
  proof
    assume "loadAssets env filename s = Inr s"
    from trace_loadAssets [OF this] show False by simp
  qed
  with assms show ?thesis
    by (simp add: onFileDrop_def menuBar_open_def)
qed

theorem C9_file_drop_rejected_when_busy_witness:
  "m_busy (loadAssets_caller running) \<and>
   onFileDrop example_env ''scene.glb'' (loadAssets_caller running) =
     Inr (loadAssets_caller running) \<and>
   menuBar_open example_env ''scene.glb'' (loadAssets_caller running) \<noteq>
     Inr (loadAssets_caller running)"
proof -
  have busy: "m_busy (loadAssets_caller running)"
    by (simp add: loadAssets_caller_def call_def)
  from C9_file_drop_rejected_when_busy
         [where env = example_env and filename = "''scene.glb''", OF busy] busy
  show ?thesis
    by blast
qed

text \<open>
  C10: every call of \<^verbatim>\<open>loadEnvironmentHdr\<close> loads the environment and then sets
  \<^verbatim>\<open>m_rtxState.fireflyClampThreshold\<close> to the product of the integral of the loaded
  environment and \<^verbatim>\<open>4.f\<close>; no other field of \<^verbatim>\<open>m_rtxState\<close> changes.
\<close>

theorem C10_hdr_sets_firefly_threshold:
  "fireflyClampThreshold (m_rtxState (loadEnvironmentHdr env hdrFilename s)) =
     float_mul env (skydome_integral (loadEnvironmentHdr env hdrFilename s)) float_4
   \<and> skydome_integral (loadEnvironmentHdr env hdrFilename s) = hdr_integral env hdrFilename
   \<and> trace (loadEnvironmentHdr env hdrFilename s) =
       trace s @ [SkydomeLoadEnvironment hdrFilename]
   \<and> m_rtxState (loadEnvironmentHdr env hdrFilename s) =
       (m_rtxState s)\<lparr>fireflyClampThreshold :=
                         float_mul env (hdr_integral env hdrFilename) float_4\<rparr>"
  by (simp add: loadEnvironmentHdr_def call_def Let_def)

theorem C10_hdr_sets_firefly_threshold_witness:
  "fireflyClampThreshold (m_rtxState initial_Simulator) = 0x3F800000 \<and>
   fireflyClampThreshold (m_rtxState (loadEnvironmentHdr example_env ''env.hdr'' initial_Simulator)) =
     0x40800000"
  using C10_hdr_sets_firefly_threshold [of example_env "''env.hdr''" initial_Simulator]
  by (simp add: example_env_def float_4_def initial_Simulator_def initial_RtxState_def)

section \<open>Claims about the renderer switch and the settings panel\<close>

lemma accumulate_changed_iff: "accumulate_changed c ws = (c \<or> True \<in> set ws)"
  unfolding accumulate_changed_def by (induction ws arbitrary: c) auto

lemma createRender_trace:
  assumes "method \<noteq> eNone"
  shows "\<exists>s1 es. createRender method s = Inr s1 \<and> trace s1 = trace s @ es
           \<and> ResetFrame \<notin> set es \<and> m_renderRegion s1 = m_renderRegion s
           \<and> m_rtxState s1 = m_rtxState s"
  using assms by (simp add: createRender_def pRender_create_def call_def Let_def)

lemma guiRayTracing_trace:
  assumes "pipeline_selection p \<noteq> Some eNone"
  shows "\<exists>s1 es. guiRayTracing p s =
             Inr (returned (maxDepth_slider p) \<or> returned (maxSamples_slider p)
                  \<or> returned (maxFrames_slider p) \<or> returned (descaling_slider p)
                  \<or> returned (accumulate_slider p) \<or> returned (pbrMode_selection p)
                  \<or> (m_rndMethod s = eRtxPipeline \<and> anyhit_checkbox p)
                  \<or> (open_Debugging p
                      \<and> (returned (debugMode_selection p)
                         \<or> (written (debugMode_selection p) (debugging_mode (m_rtxState s))
                               = eHeatmap
                             \<and> (returned (minHeatmap_drag p)
                                \<or> returned (maxHeatmap_drag p)))))
                  \<or> (m_supportRayQuery s \<and> pipeline_selection p \<noteq> None), s1)
           \<and> trace s1 = trace s @ es \<and> ResetFrame \<notin> set es
           \<and> m_renderRegion s1 = m_renderRegion s
           \<and> frame (m_rtxState s1) = frame (m_rtxState s)"
proof -
  define s3 where
    "s3 = (let rtx = m_rtxState s;
          s1 = s\<lparr>m_rtxState :=
                   rtx\<lparr>maxDepth := written (maxDepth_slider p) (maxDepth rtx),
                       maxSamples := written (maxSamples_slider p) (maxSamples rtx),
                       accumulate := written (accumulate_slider p) (accumulate rtx),
                       pbrMode := written (pbrMode_selection p) (pbrMode rtx)\<rparr>,
                 m_maxFrames := written (maxFrames_slider p) (m_maxFrames s),
                 m_descalingLevel := written (descaling_slider p) (m_descalingLevel s)\<rparr>;
          anyhit = (m_rndMethod s1 = eRtxPipeline \<and> anyhit_checkbox p);
          s2 = (if anyhit then call RtxUseAnyHit (call DeviceWaitIdle s1) else s1);
          rtx2 = m_rtxState s2;
          mode = written (debugMode_selection p) (debugging_mode rtx2)
      in (if open_Debugging p
                then s2\<lparr>m_rtxState :=
                          (if mode = eHeatmap
                           then rtx2\<lparr>debugging_mode := mode,
                                     minHeatmap := written (minHeatmap_drag p) (minHeatmap rtx2),
                                     maxHeatmap := written (maxHeatmap_drag p) (maxHeatmap rtx2)\<rparr>
                           else rtx2\<lparr>debugging_mode := mode\<rparr>)\<rparr>
                else s2))"
  define es0 where
    "es0 = (if m_rndMethod s = eRtxPipeline \<and> anyhit_checkbox p
            then [DeviceWaitIdle, RtxUseAnyHit] else [])"
  have s3: "trace s3 = trace s @ es0" "ResetFrame \<notin> set es0"
    "m_renderRegion s3 = m_renderRegion s" "m_supportRayQuery s3 = m_supportRayQuery s"
    "frame (m_rtxState s3) = frame (m_rtxState s)"
    by (simp_all add: s3_def es0_def call_def Let_def)
  show ?thesis
  proof (cases "m_supportRayQuery s \<and> pipeline_selection p \<noteq> None")
    case False
    then have "guiRayTracing p s =
        Inr (returned (maxDepth_slider p) \<or> returned (maxSamples_slider p)
                  \<or> returned (maxFrames_slider p) \<or> returned (descaling_slider p)
                  \<or> returned (accumulate_slider p) \<or> returned (pbrMode_selection p)
                  \<or> (m_rndMethod s = eRtxPipeline \<and> anyhit_checkbox p)
                  \<or> (open_Debugging p
                      \<and> (returned (debugMode_selection p)
                         \<or> (written (debugMode_selection p) (debugging_mode (m_rtxState s))
                               = eHeatmap
                             \<and> (returned (minHeatmap_drag p)
                                \<or> returned (maxHeatmap_drag p))))), s3)"
      using s3(4)
      by (auto simp: guiRayTracing_def Let_def accumulate_changed_iff s3_def call_def
          split: option.splits)
    with False s3 show ?thesis by auto
  next
    case True
    then obtain m where chosen: "pipeline_selection p = Some m" "m \<noteq> eNone"
      using assms by auto
    from createRender_trace [OF chosen(2), of s3]
    obtain s4 es1 where s4: "createRender m s3 = Inr s4" "trace s4 = trace s3 @ es1"
      "ResetFrame \<notin> set es1" "m_renderRegion s4 = m_renderRegion s3"
      "m_rtxState s4 = m_rtxState s3"
      by blast
    from True chosen s4(1) s3(4) have "guiRayTracing p s = Inr (True, s4)"
      unfolding guiRayTracing_def s3_def Let_def by simp
    moreover have "trace s4 = trace s @ (es0 @ es1)" "ResetFrame \<notin> set (es0 @ es1)"
      using s3(1,2) s4(2,3) by simp_all
    ultimately show ?thesis
      using True s4(4,5) s3(3,5) by (intro exI [of _ s4] exI [of _ "es0 @ es1"]) simp
  qed
qed

text \<open>
  C5: \<^verbatim>\<open>createRender(method)\<close> does nothing when \<open>method\<close> is the active renderer kind.
  Otherwise, with a renderer active, it waits for the device to be idle, then destroys
  the renderer that was active, then makes \<open>method\<close> the active kind, then creates the
  renderer of the kind that is now active.  (With no renderer active there is neither
  wait nor destroy; creating the kind \<^verbatim>\<open>eNone\<close> indexes \<^verbatim>\<open>m_pRender\<close> out of range.)
\<close>

theorem C5_hot_swap_order:
  "(method = m_rndMethod s \<longrightarrow> createRender method s = Inr s)
   \<and> (method \<noteq> m_rndMethod s \<and> m_rndMethod s \<noteq> eNone \<longrightarrow>
        createRender method s =
          pRender_create
            (s\<lparr>trace := trace s @ [DeviceWaitIdle, RenderDestroy (m_rndMethod s)],
               m_rndMethod := method\<rparr>)
        \<and> (method \<noteq> eNone \<longrightarrow>
             createRender method s =
               Inr (s\<lparr>m_rndMethod := method,
                      trace := trace s @ [DeviceWaitIdle, RenderDestroy (m_rndMethod s),
                                          RenderCreate method]\<rparr>)))
   \<and> (method \<noteq> m_rndMethod s \<and> m_rndMethod s = eNone \<longrightarrow>
        createRender method s =
          Inr (s\<lparr>m_rndMethod := method, trace := trace s @ [RenderCreate method]\<rparr>))"
  by (auto simp: createRender_def pRender_create_def call_def Let_def)

theorem C5_hot_swap_order_witness:
  "createRender eRtxPipeline running = Inr running
   \<and> eRayQuery \<noteq> m_rndMethod running \<and> m_rndMethod running \<noteq> eNone
   \<and> createRender eRayQuery running =
       Inr (running\<lparr>m_rndMethod := eRayQuery,
                    trace := [DeviceWaitIdle, RenderDestroy eRtxPipeline,
                              RenderCreate eRayQuery]\<rparr>)
   \<and> createRender eRayQuery initial_Simulator =
       Inr (initial_Simulator\<lparr>m_rndMethod := eRayQuery, trace := [RenderCreate eRayQuery]\<rparr>)"
  using C5_hot_swap_order [of eRtxPipeline running]
    C5_hot_swap_order [of eRayQuery running]
    C5_hot_swap_order [of eRayQuery initial_Simulator]
  by (simp add: m_rndMethod_running trace_running initial_Simulator_def
      pRender_create_def call_def)

text \<open>
  C6 (as stated: a change of any camera, ray tracing, tonemapper or environment control
  in a GUI pass makes \<^verbatim>\<open>SimGUI::render\<close> invoke \<^verbatim>\<open>resetFrame\<close> once).  A change of a
  tonemapper control does not: with the exposure slider of the open tonemapper panel
  changed and nothing else, the pass invokes no \<^verbatim>\<open>resetFrame\<close> and the frame counter
  stays at 5.
\<close>

theorem C6_tonemapper_change_no_reset:
  "open_Tonemapper tonemapper_pass \<and>
   True \<in> set (tonemapper_sliders (tonemapper_panel tonemapper_pass)) \<and>
   map_sum id trace (SimGUI_render tonemapper_pass running) = Inr [] \<and>
   map_sum id (frame \<circ> m_rtxState) (SimGUI_render tonemapper_pass running) = Inr 5"
  by (simp add: tonemapper_pass_def quiet_pass_def untouched_def SimGUI_render_def
      guiCamera_def guiRayTracing_def guiTonemapper_def guiEnvironment_def
      accumulate_changed_def setRenderRegion_def Let_def returned_def written_def
      bitset_set_def running_def frame5_of_10_def initial_Simulator_def
      initial_RtxState_def)

text \<open>
  C6, amended: in every GUI pass the flags of the camera, ray tracing and environment
  panels are or-ed into one flag that is tested once, after all panels have been drawn:
  if a control of an open panel among these three changed, \<^verbatim>\<open>resetFrame\<close> is invoked
  exactly once for it, after the panels, and otherwise not; no panel invokes it.  The
  controls of the tonemapper panel never contribute (\<^verbatim>\<open>guiTonemapper\<close> returns false):
  whatever they report, the calls made by the pass and the resulting \<^verbatim>\<open>m_rtxState\<close> are
  the same.  One more \<^verbatim>\<open>resetFrame\<close> follows in the same pass when the viewport
  rectangle differs from \<^verbatim>\<open>m_renderRegion\<close>.
\<close>

theorem C6_gui_reset_once:
  assumes "pipeline_selection (raytracing_panel g) \<noteq> Some eNone"
  shows "\<exists>s' es. SimGUI_render g s = Inr s' \<and> ResetFrame \<notin> set es
            \<and> trace s' = trace s @ es
                 @ (if restart_control_changed g s then [ResetFrame] else [])
                 @ (if m_renderRegion s \<noteq> viewport g then [ResetFrame] else [])
            \<and> frame (m_rtxState s') =
                 (if restart_control_changed g s \<or> m_renderRegion s \<noteq> viewport g
                  then - 1 else frame (m_rtxState s))
            \<and> (\<forall>b p. \<exists>t. SimGUI_render (g\<lparr>open_Tonemapper := b, tonemapper_panel := p\<rparr>) s
                            = Inr t
                       \<and> trace t = trace s' \<and> m_rtxState t = m_rtxState s')"
proof -
  define changed1 where
    "changed1 = (open_Camera g
                 \<and> (camera_widget (camera_panel g) \<or> aperture_slider (camera_panel g)))"
  define env_changed where
    "env_changed = (open_Environment g
       \<and> (useSunSky_checkbox (environment_panel g)
          \<or> returned (hdrMultiplier_slider (environment_panel g))
          \<or> True \<in> set (sunsky_widgets (environment_panel g))))"
  define rt where
    "rt = (returned (maxDepth_slider (raytracing_panel g))
            \<or> returned (maxSamples_slider (raytracing_panel g))
            \<or> returned (maxFrames_slider (raytracing_panel g))
            \<or> returned (descaling_slider (raytracing_panel g))
            \<or> returned (accumulate_slider (raytracing_panel g))
            \<or> returned (pbrMode_selection (raytracing_panel g))
            \<or> (m_rndMethod s = eRtxPipeline \<and> anyhit_checkbox (raytracing_panel g))
            \<or> (open_Debugging (raytracing_panel g)
                \<and> (returned (debugMode_selection (raytracing_panel g))
                   \<or> (written (debugMode_selection (raytracing_panel g))
                         (debugging_mode (m_rtxState s)) = eHeatmap
                       \<and> (returned (minHeatmap_drag (raytracing_panel g))
                          \<or> returned (maxHeatmap_drag (raytracing_panel g))))))
            \<or> (m_supportRayQuery s \<and> pipeline_selection (raytracing_panel g) \<noteq> None))"
  have flag: "restart_control_changed g s =
                (changed1 \<or> (open_RayTracing g \<and> rt) \<or> env_changed)"
    unfolding restart_control_changed_def Let_def changed1_def rt_def env_changed_def
    by (rule refl)
  obtain c s1 es where panel:
    "(if open_RayTracing g
      then (case guiRayTracing (raytracing_panel g) s of
              Inl f \<Rightarrow> Inl f | Inr (c, s1) \<Rightarrow> Inr (changed1 \<or> c, s1))
      else Inr (changed1, s)) = Inr (c, s1)"
    "(c \<or> env_changed) = restart_control_changed g s"
    "trace s1 = trace s @ es" "ResetFrame \<notin> set es" "m_renderRegion s1 = m_renderRegion s"
    "frame (m_rtxState s1) = frame (m_rtxState s)"
  proof (cases "open_RayTracing g")
    case True
    from guiRayTracing_trace [OF assms, of s] obtain s1 es where rt_panel:
      "guiRayTracing (raytracing_panel g) s = Inr (rt, s1)"
      "trace s1 = trace s @ es" "ResetFrame \<notin> set es" "m_renderRegion s1 = m_renderRegion s"
      "frame (m_rtxState s1) = frame (m_rtxState s)"
      unfolding rt_def by blast
    show ?thesis
    proof (rule that [of "changed1 \<or> rt" s1 es])
      show "(if open_RayTracing g
             then (case guiRayTracing (raytracing_panel g) s of
                     Inl f \<Rightarrow> Inl f | Inr (c, s1) \<Rightarrow> Inr (changed1 \<or> c, s1))
             else Inr (changed1, s)) = Inr (changed1 \<or> rt, s1)"
        using True rt_panel(1) by simp
      show "((changed1 \<or> rt) \<or> env_changed) = restart_control_changed g s"
        using True by (simp add: flag)
    qed (rule rt_panel)+
  next
    case False
    show ?thesis
    proof (rule that [of changed1 s "[]"])
      show "(if open_RayTracing g
             then (case guiRayTracing (raytracing_panel g) s of
                     Inl f \<Rightarrow> Inl f | Inr (c, s1) \<Rightarrow> Inr (changed1 \<or> c, s1))
             else Inr (changed1, s)) = Inr (changed1, s)"
        using False by simp
      show "(changed1 \<or> env_changed) = restart_control_changed g s"
        using False by (simp add: flag)
    qed simp_all
  qed
  define T where "T b p = (if b then snd (guiTonemapper p s1) else s1)" for b p
  define E where
    "E b p = (if open_Environment g
              then snd (guiEnvironment (environment_panel g) (T b p)) else T b p)" for b p
  define R where
    "R b p = setRenderRegion (viewport g)
               (if restart_control_changed g s then resetFrame (E b p) else E b p)" for b p
  have ch1: "(if open_Camera g then False \<or> guiCamera (camera_panel g) else False) = changed1"
    by (simp add: changed1_def guiCamera_def accumulate_changed_iff)
  have render: "SimGUI_render (g\<lparr>open_Tonemapper := b, tonemapper_panel := p\<rparr>) s = Inr (R b p)"
    for b p
  proof -
    define g' where "g' = g\<lparr>open_Tonemapper := b, tonemapper_panel := p\<rparr>"
    have sel: "open_Camera g' = open_Camera g" "camera_panel g' = camera_panel g"
      "open_RayTracing g' = open_RayTracing g" "raytracing_panel g' = raytracing_panel g"
      "open_Environment g' = open_Environment g"
      "environment_panel g' = environment_panel g" "viewport g' = viewport g"
      "open_Tonemapper g' = b" "tonemapper_panel g' = p"
      by (simp_all add: g'_def)
    have "SimGUI_render g' s = Inr (R b p)"
      unfolding SimGUI_render_def Let_def sel ch1 panel(1)
      by (simp add: R_def E_def T_def panel(2) [symmetric] env_changed_def
          guiTonemapper_def guiEnvironment_def accumulate_changed_iff Let_def)
    then show ?thesis by (simp add: g'_def)
  qed
  have T: "trace (T b p) = trace s1" "m_rtxState (T b p) = m_rtxState s1"
    "m_renderRegion (T b p) = m_renderRegion s1" for b p
    by (simp_all add: T_def guiTonemapper_def Let_def)
  have E: "trace (E b p) = trace s1" "m_renderRegion (E b p) = m_renderRegion s1"
    "frame (m_rtxState (E b p)) = frame (m_rtxState s1)"
    "m_rtxState (E b p) = m_rtxState (E b' p')" for b p b' p'
    by (simp_all add: E_def guiEnvironment_def T)
  have R_trace: "trace (R b p) = trace s @ es
                 @ (if restart_control_changed g s then [ResetFrame] else [])
                 @ (if m_renderRegion s \<noteq> viewport g then [ResetFrame] else [])" for b p
    by (simp add: R_def setRenderRegion_def resetFrame_def call_def E panel(3) panel(5))
  have R_rtx: "m_rtxState (R b p) = m_rtxState (R b' p')" for b p b' p'
    using E(4) [of b p b' p']
    by (simp add: R_def setRenderRegion_def resetFrame_def call_def E(2))
  have R_frame: "frame (m_rtxState (R b p)) =
                 (if restart_control_changed g s \<or> m_renderRegion s \<noteq> viewport g
                  then - 1 else frame (m_rtxState s))" for b p
    by (simp add: R_def setRenderRegion_def resetFrame_def call_def E panel(5) panel(6))
  have "g\<lparr>open_Tonemapper := open_Tonemapper g, tonemapper_panel := tonemapper_panel g\<rparr> = g"
    by simp
  with render [where b = "open_Tonemapper g" and p = "tonemapper_panel g"]
  have here: "SimGUI_render g s = Inr (R (open_Tonemapper g) (tonemapper_panel g))"
    by simp
  have "\<forall>b p. \<exists>t. SimGUI_render (g\<lparr>open_Tonemapper := b, tonemapper_panel := p\<rparr>) s = Inr t
          \<and> trace t = trace (R (open_Tonemapper g) (tonemapper_panel g))
          \<and> m_rtxState t = m_rtxState (R (open_Tonemapper g) (tonemapper_panel g))"
    using render R_trace R_rtx by (metis (no_types))
  with here R_trace R_frame panel(4) show ?thesis
    by blast
qed

theorem C6_gui_reset_once_witness:
  "pipeline_selection (raytracing_panel raytracing_pass) \<noteq> Some eNone
   \<and> restart_control_changed raytracing_pass running
   \<and> m_renderRegion running = viewport raytracing_pass
   \<and> map_sum id trace (SimGUI_render raytracing_pass running) = Inr [ResetFrame]
   \<and> (\<exists>s' es. SimGUI_render raytracing_pass running = Inr s' \<and> ResetFrame \<notin> set es
         \<and> trace s' = trace running @ es @ [ResetFrame]
         \<and> frame (m_rtxState s') = - 1)"
proof -
  have sel: "pipeline_selection (raytracing_panel raytracing_pass) \<noteq> Some eNone"
    by (simp add: raytracing_pass_def quiet_pass_def)
  have changed: "restart_control_changed raytracing_pass running"
    by (simp add: restart_control_changed_def raytracing_pass_def quiet_pass_def
        returned_def)
  have region: "m_renderRegion running = viewport raytracing_pass"
    by (simp add: raytracing_pass_def quiet_pass_def running_def frame5_of_10_def
        initial_Simulator_def)
  have run: "map_sum id trace (SimGUI_render raytracing_pass running) = Inr [ResetFrame]"
    by (simp add: raytracing_pass_def quiet_pass_def untouched_def SimGUI_render_def
        guiCamera_def guiRayTracing_def guiTonemapper_def guiEnvironment_def
        accumulate_changed_def setRenderRegion_def resetFrame_def call_def Let_def
        returned_def written_def bitset_set_def running_def frame5_of_10_def
        initial_Simulator_def initial_RtxState_def)
  from C6_gui_reset_once [OF sel, of running] sel changed region run
  show ?thesis by auto
qed

end
